theory Spec2Isabelle
  imports Complex_Main "HOL-Library.Char_ord" "HOL-Library.List_Lexorder"
begin

section \<open>Values and errors of the interpreter\<close>

text \<open>
  The script \<^verbatim>\<open>staku_svg.py\<close> is embedded function by function. Python's \<^verbatim>\<open>float\<close> is
  idealised as \<^typ>\<open>real\<close> (no rounding, no overflow, no NaN); Python's unbounded
  \<^verbatim>\<open>int\<close> is \<^typ>\<open>int\<close>. Every \<^verbatim>\<open>raise\<close>, failed \<^verbatim>\<open>assert\<close> and failing
  built-in operation is a value \<open>Inl e\<close> of the result type \<open>error + 'a\<close>.
\<close>

datatype error =
    NotImplementedError
  | ZeroDivisionError
  | AssertionError
  | KeyError
  | IndexError
  | TypeError
  | ValueError
  | OverflowError
  | UnboundLocalError

text \<open>Sequencing of statements that may raise.\<close>

definition and_then :: "error + 'a \<Rightarrow> ('a \<Rightarrow> error + 'b) \<Rightarrow> error + 'b" where
  "and_then r f = (case r of Inl e \<Rightarrow> Inl e | Inr a \<Rightarrow> f a)"

text \<open>\<^verbatim>\<open>class Side(enum.Enum)\<close>\<close>

datatype Side = NORTH | SOUTH | WEST | EAST

section \<open>TinyVector\<close>

text \<open>The two slots \<^verbatim>\<open>__x\<close> and \<^verbatim>\<open>__y\<close>; the constructor applies \<^verbatim>\<open>float\<close> to both.\<close>

record TinyVector =
  tv_x :: real
  tv_y :: real

text \<open>
  The right operand of a binary operator is dynamically typed. \<^verbatim>\<open>bool\<close> is a subclass of
  \<^verbatim>\<open>int\<close>, so \<^verbatim>\<open>isinstance(True, (int, float))\<close> holds; \<open>PyNone\<close> and \<open>PyStr\<close> stand
  for the operands that are neither numbers nor vectors.
\<close>

datatype operand =
    PyInt int
  | PyBool bool
  | PyFloat real
  | PyVector TinyVector
  | PyNone
  | PyStr string

definition TinyVector_init :: "real \<times> real \<Rightarrow> TinyVector" where
  "TinyVector_init xy_pair = \<lparr>tv_x = fst xy_pair, tv_y = snd xy_pair\<rparr>"

text \<open>\<^verbatim>\<open>isinstance(other, (int, float))\<close>\<close>

fun is_number :: "operand \<Rightarrow> bool" where
  "is_number (PyInt n) = True"
| "is_number (PyBool b) = True"
| "is_number (PyFloat r) = True"
| "is_number (PyVector w) = False"
| "is_number PyNone = False"
| "is_number (PyStr s) = False"

text \<open>
  Arithmetic of a float with an int first converts the int to a float. The conversion
  raises \<^verbatim>\<open>OverflowError\<close> for an int that rounds beyond the largest float, which is the
  case from \<open>2^1024 - 2^970\<close> on in absolute value. Below that bound the model takes the
  value of the int itself.
\<close>

definition float_overflow_bound :: int where
  "float_overflow_bound = 2 ^ 1024 - 2 ^ 970"

definition int_to_float :: "int \<Rightarrow> error + real" where
  "int_to_float n = (if float_overflow_bound \<le> \<bar>n\<bar> then Inl OverflowError else Inr (of_int n))"

text \<open>
  The float that the arithmetic of a float with \<^verbatim>\<open>other\<close> works on. The last three
  equations are never reached: every use is behind \<open>is_number\<close>.
\<close>

fun to_float :: "operand \<Rightarrow> error + real" where
  "to_float (PyInt n) = int_to_float n"
| "to_float (PyBool b) = Inr (if b then 1 else 0)"
| "to_float (PyFloat r) = Inr r"
| "to_float (PyVector w) = Inl TypeError"
| "to_float PyNone = Inl TypeError"
| "to_float (PyStr s) = Inl TypeError"

text \<open>\<^verbatim>\<open>__getitem__\<close>\<close>

definition getitem :: "TinyVector \<Rightarrow> int \<Rightarrow> error + real" where
  "getitem v key =
     (if key = 0 then Inr (tv_x v)
      else if key = 1 then Inr (tv_y v)
      else Inl IndexError)"

text \<open>\<^verbatim>\<open>__neg__\<close>\<close>

definition neg :: "TinyVector \<Rightarrow> TinyVector" where
  "neg v = TinyVector_init (- tv_x v, - tv_y v)"

text \<open>
  \<^verbatim>\<open>__add__\<close> and \<^verbatim>\<open>__sub__\<close>: a vector or a number on the right. The first component
  is computed first, so a conversion that overflows raises there.
\<close>

definition add :: "TinyVector \<Rightarrow> operand \<Rightarrow> error + TinyVector" where
  "add v other =
     (case other of
        PyVector w \<Rightarrow> Inr (TinyVector_init (tv_x v + tv_x w, tv_y v + tv_y w))
      | _ \<Rightarrow>
         (if is_number other then
            and_then (to_float other) (\<lambda>r. Inr (TinyVector_init (tv_x v + r, tv_y v + r)))
          else Inl NotImplementedError))"

definition sub :: "TinyVector \<Rightarrow> operand \<Rightarrow> error + TinyVector" where
  "sub v other =
     (case other of
        PyVector w \<Rightarrow> Inr (TinyVector_init (tv_x v - tv_x w, tv_y v - tv_y w))
      | _ \<Rightarrow>
         (if is_number other then
            and_then (to_float other) (\<lambda>r. Inr (TinyVector_init (tv_x v - r, tv_y v - r)))
          else Inl NotImplementedError))"

text \<open>\<^verbatim>\<open>__mul__\<close>: only a number on the right.\<close>

definition mul :: "TinyVector \<Rightarrow> operand \<Rightarrow> error + TinyVector" where
  "mul v other =
     (if is_number other then
        and_then (to_float other) (\<lambda>r. Inr (TinyVector_init (tv_x v * r, tv_y v * r)))
      else Inl NotImplementedError)"

text \<open>
  \<^verbatim>\<open>__truediv__\<close>: only a number on the right; after the conversion, Python's \<^verbatim>\<open>/\<close> on
  floats raises \<^verbatim>\<open>ZeroDivisionError\<close> for a zero divisor, where HOL's division returns 0.
\<close>

definition truediv :: "TinyVector \<Rightarrow> operand \<Rightarrow> error + TinyVector" where
  "truediv v other =
     (if is_number other then
        and_then (to_float other) (\<lambda>r.
          if r = 0 then Inl ZeroDivisionError
          else Inr (TinyVector_init (tv_x v / r, tv_y v / r)))
      else Inl NotImplementedError)"

text \<open>\<^verbatim>\<open>make_rotation\<close>\<close>

definition make_rotation :: "TinyVector \<Rightarrow> real \<Rightarrow> TinyVector" where
  "make_rotation v angle =
     (let new_x = cos angle * tv_x v - sin angle * tv_y v;
          new_y = sin angle * tv_x v + cos angle * tv_y v
      in TinyVector_init (new_x, new_y))"

text \<open>\<^verbatim>\<open>inner\<close> and \<^verbatim>\<open>norm\<close> on arguments that are vectors.\<close>

definition inner :: "TinyVector \<Rightarrow> TinyVector \<Rightarrow> real" where
  "inner that other = tv_x that * tv_x other + tv_y that * tv_y other"


text \<open>
  The operators as the script applies them, with operands whose types are fixed at the call
  site: vector plus vector, vector minus vector, and number times vector (Python falls
  back from \<^verbatim>\<open>float.__mul__\<close> to \<^verbatim>\<open>__rmul__\<close>, which calls \<^verbatim>\<open>__mul__\<close>).
\<close>

definition vadd :: "TinyVector \<Rightarrow> TinyVector \<Rightarrow> TinyVector" where
  "vadd v w = TinyVector_init (tv_x v + tv_x w, tv_y v + tv_y w)"


definition rmul :: "real \<Rightarrow> TinyVector \<Rightarrow> TinyVector" where
  "rmul r v = TinyVector_init (tv_x v * r, tv_y v * r)"

section \<open>BoardConfig\<close>

text \<open>
  The dataclass \<^verbatim>\<open>BoardConfig\<close>. The global \<^verbatim>\<open>BOARD_CONFIG\<close> is read by the \<^verbatim>\<open>Hexagon\<close>
  constructor and by the drawing functions; in the model it is the explicit argument
  \<open>cfg\<close>.
\<close>

record BoardConfig =
  board_width_cm :: real
  board_height_cm :: real
  board_width :: real
  board_height :: real
  board_cut_margin :: real
  line_width_max_to_cut :: real
  line_width_min_to_engrave :: real
  board_color :: string
  hexagon_width :: real
  hexagon_side :: real
  hexagon_height :: real
  hexagon_padding :: real
  hexagon_line_width :: real
  hexagon_line_color :: string
  hexagon_opacity :: real
  hexagon_vertex_count :: int
  hexagon_side_angle :: real
  origin :: TinyVector
  unit_x :: TinyVector
  unit_y :: TinyVector
  unit_u :: TinyVector
  unit_v :: TinyVector
  label_color :: string
  label_font_family :: string
  label_font_size :: int
  label_vertical_shift :: TinyVector
  label_horizontal_shift :: TinyVector

text \<open>The colour codes and line widths of the laser, module-level constants.\<close>

definition COLOR_TO_ENGRAVE :: string where
  "COLOR_TO_ENGRAVE = ''rgb(0,0,0)''"

definition COLOR_TO_CUT_1 :: string where
  "COLOR_TO_CUT_1 = ''rgb(0,0,255)''"

definition LINE_WIDTH_MAX_TO_CUT_CM :: real where
  "LINE_WIDTH_MAX_TO_CUT_CM = (1 / 10) / 10"

definition LINE_WIDTH_MIN_TO_ENGRAVE_CM :: real where
  "LINE_WIDTH_MIN_TO_ENGRAVE_CM = (11 / 100) / 10"

text \<open>\<^verbatim>\<open>int(x)\<close> on a float truncates towards zero.\<close>

definition truncate :: "real \<Rightarrow> int" where
  "truncate r = (if 0 \<le> r then floor r else ceiling r)"

text \<open>
  \<^verbatim>\<open>make_board_config\<close>, without its printing. No divisor of the function is zero:
  they are \<open>sqrt 3\<close>, the literals 2, 4 and 10, and \<^verbatim>\<open>board_width_cm\<close>, a sum of positive
  lengths.
\<close>

definition make_board_config :: BoardConfig where
  "make_board_config =
     (let cube_side_cm = 18 / 10;
          hexagon_width_cm = 2 * cube_side_cm;
          hexagon_side_cm = hexagon_width_cm / sqrt 3;
          hexagon_height_cm = 2 * hexagon_side_cm;
          hexagon_padding_cm = 3 / 10;
          hexagon_line_width_cm = (1 / 10) / 4;
          max_horizontal_hexagon_count = (8 :: int);
          max_vertical_hexagon_count = (7 :: int);
          board_left_margin_cm = hexagon_width_cm / 2;
          board_right_margin_cm = hexagon_width_cm / 2;
          board_top_margin_cm = hexagon_side_cm;
          board_bottom_margin_cm = hexagon_side_cm;
          board_cut_margin_cm = (1 / 10) / 10;
          width_cm = board_cut_margin_cm + board_left_margin_cm +
                     of_int max_horizontal_hexagon_count * hexagon_width_cm +
                     board_right_margin_cm + board_cut_margin_cm;
          height_cm = board_cut_margin_cm + board_top_margin_cm +
                      of_int (max_vertical_hexagon_count div 2) * hexagon_side_cm +
                      of_int (max_vertical_hexagon_count - max_vertical_hexagon_count div 2) *
                        hexagon_height_cm +
                      board_bottom_margin_cm + board_cut_margin_cm;
          width = 4096;
          height = width * (height_cm / width_cm);
          cut_margin = width * (board_cut_margin_cm / width_cm);
          hex_width = width * (hexagon_width_cm / width_cm);
          hex_side = width * (hexagon_side_cm / width_cm);
          hex_height = width * (hexagon_height_cm / width_cm);
          hex_padding = width * (hexagon_padding_cm / width_cm);
          max_to_cut = width * (LINE_WIDTH_MAX_TO_CUT_CM / width_cm);
          min_to_engrave = width * (LINE_WIDTH_MIN_TO_ENGRAVE_CM / width_cm);
          vertex_count = (6 :: int);
          side_angle = 2 * pi / of_int vertex_count;
          origin_xy = TinyVector_init (0, 0);
          x_unit = TinyVector_init (1, 0);
          y_unit = TinyVector_init (0, -1);
          u_unit = x_unit;
          v_unit = vadd (rmul (cos side_angle) x_unit) (rmul (sin side_angle) y_unit);
          line_width = width * (hexagon_line_width_cm / width_cm)
      in \<lparr>board_width_cm = width_cm,
          board_height_cm = height_cm,
          board_width = width,
          board_height = height,
          board_cut_margin = cut_margin,
          line_width_max_to_cut = max_to_cut,
          line_width_min_to_engrave = min_to_engrave,
          board_color = ''#BF9B7A'',
          hexagon_width = hex_width,
          hexagon_side = hex_side,
          hexagon_height = hex_height,
          hexagon_padding = hex_padding,
          hexagon_line_width = max 1 line_width,
          hexagon_line_color = COLOR_TO_ENGRAVE,
          hexagon_opacity = 45 / 100,
          hexagon_vertex_count = vertex_count,
          hexagon_side_angle = side_angle,
          origin = origin_xy,
          unit_x = x_unit,
          unit_y = y_unit,
          unit_u = u_unit,
          unit_v = v_unit,
          label_color = COLOR_TO_ENGRAVE,
          label_font_family = ''Helvetica'',
          label_font_size = truncate (hex_width * (20 / 100)),
          label_vertical_shift = rmul (- (60 / 100) * hex_side) y_unit,
          label_horizontal_shift = rmul ((120 / 100) * hex_side) x_unit\<rparr>)"

section \<open>The Hexagon class\<close>

text \<open>
  The attribute \<^verbatim>\<open>label_side\<close> is declared \<^verbatim>\<open>Optional[Side]\<close> with the default \<^verbatim>\<open>0\<close>:
  it holds \<^verbatim>\<open>None\<close>, an int or a member of \<^verbatim>\<open>Side\<close>.
\<close>

datatype label_side_value = LabelNone | LabelInt int | LabelSide Side

text \<open>The slots of a \<^verbatim>\<open>Hexagon\<close> object; \<^verbatim>\<open>index\<close> is \<^verbatim>\<open>None\<close> until the cells are sorted.\<close>

record hexagon =
  name :: string
  position_uv :: "int \<times> int"
  ring :: int
  label_side :: label_side_value
  index :: "nat option"
  center :: TinyVector

text \<open>
  Hexagon objects and list objects are mutable and shared, so both live in a store: the
  address of an object is its position in \<open>objects\<close>, the address of a list is its
  position in \<open>lists\<close>, and a list holds addresses of hexagons. The two dictionaries are
  association lists in insertion order from keys to addresses; nothing aliases them.
  The class attributes follow, under their source names (\<^verbatim>\<open>all\<close> is \<open>all_attr\<close>); an
  attribute that is not yet set is \<open>None\<close>.
\<close>

record Hexagon_class =
  objects :: "hexagon list"
  lists :: "nat list list"
  all_sorted_hexagons :: nat
  init_done :: bool
  layout :: "(int \<times> string list) list"
  name_to_hexagon :: "(string \<times> nat) list"
  position_uv_to_hexagon :: "((int \<times> int) \<times> nat) list"
  all_attr :: "nat option"
  delta_u :: "int list option"
  delta_v :: "int list option"

text \<open>
  The class body: \<^verbatim>\<open>__all_sorted_hexagons = []\<close> allocates the first list object,
  \<^verbatim>\<open>all = None\<close>.
\<close>

definition class_body :: Hexagon_class where
  "class_body =
     \<lparr>objects = [], lists = [[]], all_sorted_hexagons = 0, init_done = False,
      layout = [], name_to_hexagon = [], position_uv_to_hexagon = [],
      all_attr = None, delta_u = None, delta_v = None\<rparr>"

text \<open>Dictionary operations: membership, \<^verbatim>\<open>d[k] = v\<close> and \<^verbatim>\<open>d[k]\<close>.\<close>

definition dict_in :: "'k \<Rightarrow> ('k \<times> 'v) list \<Rightarrow> bool" where
  "dict_in k d = (k \<in> set (map fst d))"

fun dict_set :: "('k \<times> 'v) list \<Rightarrow> 'k \<Rightarrow> 'v \<Rightarrow> ('k \<times> 'v) list" where
  "dict_set [] k v = [(k, v)]"
| "dict_set ((k', v') # d) k v =
     (if k' = k then (k, v) # d else (k', v') # dict_set d k v)"

definition dict_get :: "('k \<times> 'v) list \<Rightarrow> 'k \<Rightarrow> error + 'v" where
  "dict_get d k = (case map_of d k of None \<Rightarrow> Inl KeyError | Some v \<Rightarrow> Inr v)"

fun run_all :: "('a \<Rightarrow> 's \<Rightarrow> error + 's) \<Rightarrow> 'a list \<Rightarrow> 's \<Rightarrow> error + 's" where
  "run_all f [] s = Inr s"
| "run_all f (a # as) s = and_then (f a s) (run_all f as)"

text \<open>
  \<^verbatim>\<open>Hexagon.__init__\<close>. The four assertions come first, in the source's order (a position
  is a pair by its type, so \<^verbatim>\<open>len(position_uv) == 2\<close> holds). \<open>new_hexagon\<close> is the object
  once all six slots are assigned: the arguments, \<^verbatim>\<open>index = None\<close>, and the center
  computed from the configuration. The object is allocated at the next free address and
  registered under its name and under its position. The constructor is called only by
  \<^verbatim>\<open>__create_hexagons\<close>, with coordinates from -4 to 4, which convert to floats exactly.
\<close>

definition new_hexagon ::
  "BoardConfig \<Rightarrow> string \<times> (int \<times> int) \<times> int \<times> label_side_value \<Rightarrow> hexagon" where
  "new_hexagon cfg args =
     (case args of (nm, (u, v), rg, side) \<Rightarrow>
        \<lparr>name = nm, position_uv = (u, v), ring = rg, label_side = side, index = None,
         center = vadd (origin cfg)
                    (rmul (hexagon_width cfg)
                       (vadd (rmul (of_int u) (unit_u cfg)) (rmul (of_int v) (unit_v cfg))))\<rparr>)"

definition Hexagon_init ::
  "BoardConfig \<Rightarrow> string \<times> (int \<times> int) \<times> int \<times> label_side_value \<Rightarrow>
   Hexagon_class \<Rightarrow> error + Hexagon_class" where
  "Hexagon_init cfg args st =
     (case args of (nm, pos, rg, side) \<Rightarrow>
        if dict_in nm (name_to_hexagon st) then Inl AssertionError
        else if dict_in pos (position_uv_to_hexagon st) then Inl AssertionError
        else if length nm \<noteq> 2 then Inl AssertionError
        else
          (let self = length (objects st)
           in Inr (st\<lparr>objects := objects st @ [new_hexagon cfg args],
                      name_to_hexagon := dict_set (name_to_hexagon st) nm self,
                      position_uv_to_hexagon :=
                        dict_set (position_uv_to_hexagon st) pos self\<rparr>)))"

text \<open>\<^verbatim>\<open>Hexagon.get\<close>, \<^verbatim>\<open>Hexagon.get_all\<close> and the lookup by position.\<close>

definition get :: "Hexagon_class \<Rightarrow> string \<Rightarrow> error + nat" where
  "get st nm = dict_get (name_to_hexagon st) nm"

definition get_by_position :: "Hexagon_class \<Rightarrow> int \<times> int \<Rightarrow> error + nat" where
  "get_by_position st pos = dict_get (position_uv_to_hexagon st) pos"

definition get_all :: "Hexagon_class \<Rightarrow> nat" where
  "get_all st = all_sorted_hexagons st"

text \<open>\<^verbatim>\<open>Hexagon.reset\<close>: four fresh containers and the flag; \<^verbatim>\<open>all\<close> is not assigned.\<close>

definition reset :: "Hexagon_class \<Rightarrow> Hexagon_class" where
  "reset st =
     st\<lparr>lists := lists st @ [[]],
        all_sorted_hexagons := length (lists st),
        init_done := False,
        layout := [],
        name_to_hexagon := [],
        position_uv_to_hexagon := []\<rparr>"

text \<open>
  \<^verbatim>\<open>__create_all_sorted_hexagons\<close>: the addresses of the cells are appended, in the order
  of the sorted names, to the list object that \<^verbatim>\<open>__all_sorted_hexagons\<close> refers to; every
  cell of that list then receives its position in the list as \<^verbatim>\<open>index\<close>; \<^verbatim>\<open>all\<close> is
  bound to the same list object.
\<close>

fun lookup_each :: "('k \<times> 'v) list \<Rightarrow> 'k list \<Rightarrow> error + 'v list" where
  "lookup_each d [] = Inr []"
| "lookup_each d (k # ks) =
     and_then (dict_get d k) (\<lambda>v. and_then (lookup_each d ks) (\<lambda>vs. Inr (v # vs)))"

definition with_index :: "nat \<Rightarrow> hexagon \<Rightarrow> hexagon" where
  "with_index i h = h\<lparr>index := Some i\<rparr>"

fun set_indices :: "hexagon list \<Rightarrow> nat \<Rightarrow> nat list \<Rightarrow> hexagon list" where
  "set_indices objs i [] = objs"
| "set_indices objs i (a # as) =
     set_indices (objs[a := with_index i (objs ! a)]) (Suc i) as"

definition create_all_sorted_hexagons :: "Hexagon_class \<Rightarrow> error + Hexagon_class" where
  "create_all_sorted_hexagons st =
     and_then (lookup_each (name_to_hexagon st) (sort (map fst (name_to_hexagon st))))
       (\<lambda>cells.
          let l = all_sorted_hexagons st;
              content = (lists st ! l) @ cells
          in Inr (st\<lparr>lists := (lists st)[l := content],
                     objects := set_indices (objects st) 0 content,
                     all_attr := Some l\<rparr>))"

text \<open>\<^verbatim>\<open>__create_delta_u_and_v\<close>: two arrays of signed bytes.\<close>

definition delta_u_array :: "int list" where
  "delta_u_array = [1, 1, 0, -1, -1, 0]"

definition delta_v_array :: "int list" where
  "delta_v_array = [0, -1, -1, 0, 1, 1]"

definition create_delta_u_and_v :: "Hexagon_class \<Rightarrow> Hexagon_class" where
  "create_delta_u_and_v st =
     st\<lparr>delta_u := Some delta_u_array, delta_v := Some delta_v_array\<rparr>"

text \<open>\<^verbatim>\<open>__create_layout\<close>\<close>

definition create_layout :: "Hexagon_class \<Rightarrow> Hexagon_class" where
  "create_layout st =
     st\<lparr>layout :=
        [(1, [''g1'', ''g2'', ''g3'', ''g4'', ''g5'', ''g6'']),
         (0, [''f1'', ''f2'', ''f3'', ''f4'', ''f5'', ''f6'', ''f7'']),
         (1, [''e1'', ''e2'', ''e3'', ''e4'', ''e5'', ''e6'', ''e7'', ''e8'']),
         (0, [''d1'', ''d2'', ''d3'', ''d4'', ''d5'', ''d6'', ''d7'']),
         (1, [''c1'', ''c2'', ''c3'', ''c4'', ''c5'', ''c6'', ''c7'', ''c8'']),
         (0, [''b1'', ''b2'', ''b3'', ''b4'', ''b5'', ''b6'', ''b7'']),
         (1, [''a1'', ''a2'', ''a3'', ''a4'', ''a5'', ''a6''])]\<rparr>"

text \<open>
  \<^verbatim>\<open>__create_hexagons\<close>: the constructor calls, as the list of their arguments in the
  order of the source. A call without \<^verbatim>\<open>label_side\<close> passes the default \<^verbatim>\<open>0\<close>.
\<close>

definition hexagon_calls :: "(string \<times> (int \<times> int) \<times> int \<times> label_side_value) list" where
  "hexagon_calls =
     [(''a1'', (-1, -3), 4, LabelSide WEST),
      (''a2'', (-0, -3), 3, LabelInt 0),
      (''a3'', (1, -3), 3, LabelInt 0),
      (''a4'', (2, -3), 3, LabelInt 0),
      (''a5'', (3, -3), 3, LabelInt 0),
      (''a6'', (4, -3), 4, LabelSide EAST),

      (''b1'', (-2, -2), 4, LabelSide WEST),
      (''b2'', (-1, -2), 3, LabelInt 0),
      (''b3'', (0, -2), 2, LabelInt 0),
      (''b4'', (1, -2), 2, LabelInt 0),
      (''b5'', (2, -2), 2, LabelInt 0),
      (''b6'', (3, -2), 3, LabelInt 0),
      (''b7'', (4, -2), 4, LabelSide EAST),

      (''c1'', (-3, -1), 4, LabelSide WEST),
      (''c2'', (-2, -1), 3, LabelInt 0),
      (''c3'', (-1, -1), 2, LabelInt 0),
      (''c4'', (0, -1), 1, LabelInt 0),
      (''c5'', (1, -1), 1, LabelInt 0),
      (''c6'', (2, -1), 2, LabelInt 0),
      (''c7'', (3, -1), 3, LabelInt 0),
      (''c8'', (4, -1), 4, LabelSide EAST),

      (''d1'', (-3, 0), 3, LabelSide WEST),
      (''d2'', (-2, 0), 2, LabelInt 0),
      (''d3'', (-1, 0), 1, LabelInt 0),
      (''d4'', (0, 0), 0, LabelInt 0),
      (''d5'', (1, 0), 1, LabelInt 0),
      (''d6'', (2, 0), 2, LabelInt 0),
      (''d7'', (3, 0), 3, LabelSide EAST),

      (''e1'', (-4, 1), 4, LabelSide WEST),
      (''e2'', (-3, 1), 3, LabelInt 0),
      (''e3'', (-2, 1), 2, LabelInt 0),
      (''e4'', (-1, 1), 1, LabelInt 0),
      (''e5'', (0, 1), 1, LabelInt 0),
      (''e6'', (1, 1), 2, LabelInt 0),
      (''e7'', (2, 1), 3, LabelInt 0),
      (''e8'', (3, 1), 4, LabelSide EAST),

      (''f1'', (-4, 2), 4, LabelSide WEST),
      (''f2'', (-3, 2), 3, LabelInt 0),
      (''f3'', (-2, 2), 2, LabelInt 0),
      (''f4'', (-1, 2), 2, LabelInt 0),
      (''f5'', (0, 2), 2, LabelInt 0),
      (''f6'', (1, 2), 3, LabelInt 0),
      (''f7'', (2, 2), 4, LabelSide EAST),

      (''g1'', (-4, 3), 4, LabelSide WEST),
      (''g2'', (-3, 3), 3, LabelInt 0),
      (''g3'', (-2, 3), 3, LabelInt 0),
      (''g4'', (-1, 3), 3, LabelInt 0),
      (''g5'', (0, 3), 3, LabelInt 0),
      (''g6'', (1, 3), 4, LabelSide EAST)]"

definition create_hexagons :: "BoardConfig \<Rightarrow> Hexagon_class \<Rightarrow> error + Hexagon_class" where
  "create_hexagons cfg st = run_all (Hexagon_init cfg) hexagon_calls st"

text \<open>\<^verbatim>\<open>Hexagon.init\<close>\<close>

definition init :: "BoardConfig \<Rightarrow> Hexagon_class \<Rightarrow> error + Hexagon_class" where
  "init cfg st =
     (if \<not> init_done st then
        and_then (create_hexagons cfg st) (\<lambda>st1.
        and_then (create_all_sorted_hexagons st1) (\<lambda>st2.
          Inr ((create_delta_u_and_v (create_layout st2))\<lparr>init_done := True\<rparr>)))
      else Inr st)"

text \<open>
  Observations on a state: the content of a list object, the object at an address, and
  the cells that a list object refers to.
\<close>

definition list_content :: "Hexagon_class \<Rightarrow> nat \<Rightarrow> nat list" where
  "list_content st l = lists st ! l"

definition cell :: "Hexagon_class \<Rightarrow> nat \<Rightarrow> hexagon" where
  "cell st a = objects st ! a"

definition cells_of :: "Hexagon_class \<Rightarrow> nat \<Rightarrow> hexagon list" where
  "cells_of st l = map (cell st) (list_content st l)"

text \<open>
  A state in which \<^verbatim>\<open>init\<close> constructs: the flag is down, both dictionaries are empty and
  \<^verbatim>\<open>__all_sorted_hexagons\<close> refers to an empty list object. The class body and every
  \<^verbatim>\<open>reset\<close> produce such a state.
\<close>

definition fresh :: "Hexagon_class \<Rightarrow> bool" where
  "fresh st \<longleftrightarrow>
     \<not> init_done st \<and> name_to_hexagon st = [] \<and> position_uv_to_hexagon st = [] \<and>
     all_sorted_hexagons st < length (lists st) \<and>
     lists st ! all_sorted_hexagons st = []"

text \<open>The cells in the order of construction, each with the index of its place.\<close>

definition catalog :: "BoardConfig \<Rightarrow> hexagon list" where
  "catalog cfg =
     map2 with_index [0..<length hexagon_calls] (map (new_hexagon cfg) hexagon_calls)"

text \<open>The two dictionaries with their values dereferenced.\<close>

definition by_name :: "Hexagon_class \<Rightarrow> (string \<times> hexagon) list" where
  "by_name st = map (\<lambda>(k, a). (k, cell st a)) (name_to_hexagon st)"

definition by_position :: "Hexagon_class \<Rightarrow> ((int \<times> int) \<times> hexagon) list" where
  "by_position st = map (\<lambda>(k, a). (k, cell st a)) (position_uv_to_hexagon st)"

text \<open>The addresses at which \<^verbatim>\<open>__create_hexagons\<close> allocates, starting from a state.\<close>

definition addresses :: "Hexagon_class \<Rightarrow> nat list" where
  "addresses st = [length (objects st)..<length (objects st) + length hexagon_calls]"

text \<open>
  The end of the module: \<^verbatim>\<open>BOARD_CONFIG = make_board_config()\<close> and \<^verbatim>\<open>Hexagon.init()\<close> on
  the class as its body left it.
\<close>

definition module_load :: "error + Hexagon_class" where
  "module_load = init make_board_config class_body"

text \<open>
  The axial lattice: a step adds one of the six pairs of \<^verbatim>\<open>__delta_u\<close> and \<^verbatim>\<open>__delta_v\<close>;
  \<open>walk n p\<close> holds when \<open>n\<close> steps lead from the center (0, 0) to \<open>p\<close>. The graph
  distance of \<open>p\<close> from the center is the least such \<open>n\<close>.
\<close>

definition lattice_steps :: "(int \<times> int) list" where
  "lattice_steps = zip delta_u_array delta_v_array"

inductive walk :: "nat \<Rightarrow> int \<times> int \<Rightarrow> bool" where
  walk_center: "walk 0 (0, 0)"
| walk_step: "walk n (u, v) \<Longrightarrow> (du, dv) \<in> set lattice_steps \<Longrightarrow> walk (Suc n) (u + du, v + dv)"

definition is_distance :: "int \<times> int \<Rightarrow> int \<Rightarrow> bool" where
  "is_distance p d \<longleftrightarrow> 0 \<le> d \<and> walk (nat d) p \<and> (\<forall>n. walk n p \<longrightarrow> nat d \<le> n)"

section \<open>Drawing\<close>

text \<open>
  The elements that the script appends to a \<^verbatim>\<open>drawsvg\<close> drawing. A rectangle carries \<open>x\<close>,
  \<open>y\<close>, \<open>width\<close> and \<open>height\<close>; \<open>Lines\<close> and \<open>Line\<close> carry their coordinates (\<open>Lines\<close>
  is always closed); a text carries \<open>text\<close>, \<open>font_size\<close>, \<open>font_family\<close>, \<open>x\<close>, \<open>y\<close>, \<open>center\<close>
  and \<open>fill\<close>. The presentation attributes of rectangles and lines (fill, gradient,
  stroke, opacity) are not carried: no branch of the script reads them. The constructors
  of the library are taken to return.
\<close>

datatype element =
    Rectangle real real real real
  | Lines "real list"
  | Line "real list"
  | Text string int string real real bool string

record drawing =
  width :: real
  height :: real
  drawing_origin :: "real \<times> real"
  render_width_cm :: real
  render_height_cm :: real
  elements :: "element list"



























section \<open>draw_board\<close>



























section \<open>TinyVector: scaling and rotation\<close>

lemma is_number_cases:
  "is_number x \<longleftrightarrow> (\<exists>n. x = PyInt n) \<or> (\<exists>b. x = PyBool b) \<or> (\<exists>r. x = PyFloat r)"
  by (cases x) simp_all

lemma mul_not_number: "\<not> is_number x \<Longrightarrow> mul v x = Inl NotImplementedError"
  by (simp add: mul_def)

lemma truediv_not_number: "\<not> is_number x \<Longrightarrow> truediv v x = Inl NotImplementedError"
  by (simp add: truediv_def)

lemma mul_float:
  "mul v (PyFloat r) = Inr \<lparr>tv_x = tv_x v * r, tv_y = tv_y v * r\<rparr>"
  by (simp add: mul_def and_then_def TinyVector_init_def)

lemma truediv_float:
  "truediv v (PyFloat r) =
     (if r = 0 then Inl ZeroDivisionError else Inr \<lparr>tv_x = tv_x v / r, tv_y = tv_y v / r\<rparr>)"
  by (simp add: truediv_def and_then_def TinyVector_init_def)

lemma mul_bool:
  "mul v (PyBool b) =
     Inr \<lparr>tv_x = tv_x v * (if b then 1 else 0), tv_y = tv_y v * (if b then 1 else 0)\<rparr>"
  by (simp add: mul_def and_then_def TinyVector_init_def)

lemma truediv_bool:
  "truediv v (PyBool b) =
     (if b then Inr \<lparr>tv_x = tv_x v / 1, tv_y = tv_y v / 1\<rparr> else Inl ZeroDivisionError)"
  by (simp add: truediv_def and_then_def TinyVector_init_def)

lemma mul_int:
  "mul v (PyInt n) =
     (if 2 ^ 1024 - 2 ^ 970 \<le> \<bar>n\<bar> then Inl OverflowError
      else Inr \<lparr>tv_x = tv_x v * of_int n, tv_y = tv_y v * of_int n\<rparr>)"
  by (simp add: mul_def and_then_def TinyVector_init_def int_to_float_def
        float_overflow_bound_def)

lemma float_overflow_bound_positive: "0 < float_overflow_bound"
proof -
  have "(2::int) ^ 970 < 2 ^ 1024" by (rule power_strict_increasing) simp_all
  then show ?thesis by (simp add: float_overflow_bound_def)
qed

lemma truediv_int:
  "truediv v (PyInt n) =
     (if 2 ^ 1024 - 2 ^ 970 \<le> \<bar>n\<bar> then Inl OverflowError
      else if n = 0 then Inl ZeroDivisionError
      else Inr \<lparr>tv_x = tv_x v / of_int n, tv_y = tv_y v / of_int n\<rparr>)"
  by (simp add: truediv_def and_then_def TinyVector_init_def int_to_float_def
        float_overflow_bound_def)

lemma overflow_at_2_1024: "float_overflow_bound \<le> \<bar>2 ^ 1024\<bar>"
proof -
  have "(0::int) \<le> 2 ^ 970" by simp
  then show ?thesis unfolding float_overflow_bound_def by simp
qed

text \<open>
  C8, as stated, fails: an operand that is an int does not always make \<^verbatim>\<open>v * x\<close> or
  \<^verbatim>\<open>v / x\<close> return a vector. Dividing the vector (1, 2) by the int 0 raises
  \<^verbatim>\<open>ZeroDivisionError\<close>, and multiplying or dividing it by the int \<open>2^1024\<close> raises
  \<^verbatim>\<open>OverflowError\<close>.
\<close>

theorem mul_truediv_number_raises:
  "is_number (PyInt 0) \<and>
   truediv \<lparr>tv_x = 1, tv_y = 2\<rparr> (PyInt 0) = Inl ZeroDivisionError \<and>
   is_number (PyInt (2 ^ 1024)) \<and>
   mul \<lparr>tv_x = 1, tv_y = 2\<rparr> (PyInt (2 ^ 1024)) = Inl OverflowError \<and>
   truediv \<lparr>tv_x = 1, tv_y = 2\<rparr> (PyInt (2 ^ 1024)) = Inl OverflowError"
proof -
  have "truediv \<lparr>tv_x = 1, tv_y = 2\<rparr> (PyInt 0) = Inl ZeroDivisionError"
    using float_overflow_bound_positive
    by (simp add: truediv_def and_then_def int_to_float_def)
  moreover have "mul \<lparr>tv_x = 1, tv_y = 2\<rparr> (PyInt (2 ^ 1024)) = Inl OverflowError"
    using overflow_at_2_1024 by (simp add: mul_def and_then_def int_to_float_def)
  moreover have "truediv \<lparr>tv_x = 1, tv_y = 2\<rparr> (PyInt (2 ^ 1024)) = Inl OverflowError"
    using overflow_at_2_1024 by (simp add: truediv_def and_then_def int_to_float_def)
  ultimately show ?thesis by simp
qed

text \<open>
  C8, amended: for an operand that is neither an int nor a float, \<^verbatim>\<open>v * x\<close> and
  \<^verbatim>\<open>v / x\<close> both fail with \<^verbatim>\<open>NotImplementedError\<close>. For an int operand \<open>n\<close> with
  \<open>\<bar>n\<bar> \<ge> 2^1024 - 2^970\<close>, too large to convert to a float, both fail with
  \<^verbatim>\<open>OverflowError\<close>. For every other int or float operand (a bool counting as the int 1 or
  0), \<^verbatim>\<open>v * x\<close> returns the new vector with both components multiplied by the operand;
  \<^verbatim>\<open>v / x\<close> returns the new vector with both components divided by it when it is not zero
  and fails with \<^verbatim>\<open>ZeroDivisionError\<close> when it is. Results are new values: the functions
  do not alter \<open>v\<close>.
\<close>

theorem mul_truediv_operand:
  "(is_number x \<longleftrightarrow> (\<exists>n. x = PyInt n) \<or> (\<exists>b. x = PyBool b) \<or> (\<exists>r. x = PyFloat r)) \<and>
   (\<not> is_number x \<longrightarrow>
      mul v x = Inl NotImplementedError \<and> truediv v x = Inl NotImplementedError) \<and>
   (x = PyInt n \<longrightarrow>
      (2 ^ 1024 - 2 ^ 970 \<le> \<bar>n\<bar> \<longrightarrow>
         mul v x = Inl OverflowError \<and> truediv v x = Inl OverflowError) \<and>
      (\<bar>n\<bar> < 2 ^ 1024 - 2 ^ 970 \<longrightarrow>
         mul v x = Inr \<lparr>tv_x = tv_x v * of_int n, tv_y = tv_y v * of_int n\<rparr> \<and>
         (n \<noteq> 0 \<longrightarrow>
            truediv v x = Inr \<lparr>tv_x = tv_x v / of_int n, tv_y = tv_y v / of_int n\<rparr>) \<and>
         (n = 0 \<longrightarrow> truediv v x = Inl ZeroDivisionError))) \<and>
   (x = PyFloat r \<longrightarrow>
      mul v x = Inr \<lparr>tv_x = tv_x v * r, tv_y = tv_y v * r\<rparr> \<and>
      (r \<noteq> 0 \<longrightarrow> truediv v x = Inr \<lparr>tv_x = tv_x v / r, tv_y = tv_y v / r\<rparr>) \<and>
      (r = 0 \<longrightarrow> truediv v x = Inl ZeroDivisionError)) \<and>
   (x = PyBool True \<longrightarrow>
      mul v x = Inr \<lparr>tv_x = tv_x v * 1, tv_y = tv_y v * 1\<rparr> \<and>
      truediv v x = Inr \<lparr>tv_x = tv_x v / 1, tv_y = tv_y v / 1\<rparr>) \<and>
   (x = PyBool False \<longrightarrow>
      mul v x = Inr \<lparr>tv_x = tv_x v * 0, tv_y = tv_y v * 0\<rparr> \<and>
      truediv v x = Inl ZeroDivisionError)"
proof -
  have "\<not> is_number x \<longrightarrow>
      mul v x = Inl NotImplementedError \<and> truediv v x = Inl NotImplementedError"
    by (simp add: mul_not_number truediv_not_number)
  moreover have "x = PyInt n \<longrightarrow>
      (2 ^ 1024 - 2 ^ 970 \<le> \<bar>n\<bar> \<longrightarrow>
         mul v x = Inl OverflowError \<and> truediv v x = Inl OverflowError) \<and>
      (\<bar>n\<bar> < 2 ^ 1024 - 2 ^ 970 \<longrightarrow>
         mul v x = Inr \<lparr>tv_x = tv_x v * of_int n, tv_y = tv_y v * of_int n\<rparr> \<and>
         (n \<noteq> 0 \<longrightarrow>
            truediv v x = Inr \<lparr>tv_x = tv_x v / of_int n, tv_y = tv_y v / of_int n\<rparr>) \<and>
         (n = 0 \<longrightarrow> truediv v x = Inl ZeroDivisionError))"
    by (auto simp: mul_int truediv_int)
  moreover have "x = PyFloat r \<longrightarrow>
      mul v x = Inr \<lparr>tv_x = tv_x v * r, tv_y = tv_y v * r\<rparr> \<and>
      (r \<noteq> 0 \<longrightarrow> truediv v x = Inr \<lparr>tv_x = tv_x v / r, tv_y = tv_y v / r\<rparr>) \<and>
      (r = 0 \<longrightarrow> truediv v x = Inl ZeroDivisionError)"
    by (simp add: mul_float truediv_float)
  moreover have "x = PyBool True \<longrightarrow>
      mul v x = Inr \<lparr>tv_x = tv_x v * 1, tv_y = tv_y v * 1\<rparr> \<and>
      truediv v x = Inr \<lparr>tv_x = tv_x v / 1, tv_y = tv_y v / 1\<rparr>"
    by (simp add: mul_bool truediv_bool)
  moreover have "x = PyBool False \<longrightarrow>
      mul v x = Inr \<lparr>tv_x = tv_x v * 0, tv_y = tv_y v * 0\<rparr> \<and>
      truediv v x = Inl ZeroDivisionError"
    by (simp add: mul_bool truediv_bool)
  ultimately show ?thesis
    using is_number_cases [of x] by blast
qed

theorem mul_truediv_operand_witness:
  "\<not> is_number (PyStr ''ab'') \<and>
   mul \<lparr>tv_x = 1, tv_y = 2\<rparr> (PyStr ''ab'') = Inl NotImplementedError \<and>
   truediv \<lparr>tv_x = 1, tv_y = 2\<rparr> (PyVector \<lparr>tv_x = 1, tv_y = 2\<rparr>) = Inl NotImplementedError \<and>
   mul \<lparr>tv_x = 1, tv_y = 2\<rparr> (PyInt 2) = Inr \<lparr>tv_x = 2, tv_y = 4\<rparr> \<and>
   truediv \<lparr>tv_x = 1, tv_y = 2\<rparr> (PyInt 2) = Inr \<lparr>tv_x = 1 / 2, tv_y = 1\<rparr> \<and>
   truediv \<lparr>tv_x = 1, tv_y = 2\<rparr> (PyInt 0) = Inl ZeroDivisionError \<and>
   mul \<lparr>tv_x = 1, tv_y = 2\<rparr> (PyInt (2 ^ 1024)) = Inl OverflowError \<and>
   mul \<lparr>tv_x = 1, tv_y = 2\<rparr> (PyFloat (1 / 2)) = Inr \<lparr>tv_x = 1 / 2, tv_y = 1\<rparr> \<and>
   truediv \<lparr>tv_x = 1, tv_y = 2\<rparr> (PyFloat 0) = Inl ZeroDivisionError \<and>
   truediv \<lparr>tv_x = 1, tv_y = 2\<rparr> (PyBool False) = Inl ZeroDivisionError"
proof -
  let ?v = "\<lparr>tv_x = 1, tv_y = 2\<rparr>"
  have small: "\<bar>2 :: int\<bar> < 2 ^ 1024 - 2 ^ 970" "\<bar>0 :: int\<bar> < 2 ^ 1024 - 2 ^ 970"
    using float_overflow_bound_positive by (simp_all add: float_overflow_bound_def)
  have big: "(2 :: int) ^ 1024 - 2 ^ 970 \<le> \<bar>2 ^ 1024\<bar>"
    using overflow_at_2_1024 by (simp add: float_overflow_bound_def)
  from mul_truediv_operand [of "PyStr ''ab''" ?v]
  have 1: "\<not> is_number (PyStr ''ab'') \<and> mul ?v (PyStr ''ab'') = Inl NotImplementedError"
    by simp
  from mul_truediv_operand [of "PyVector ?v" ?v]
  have 2: "truediv ?v (PyVector ?v) = Inl NotImplementedError"
    by simp
  from mul_truediv_operand [where x = "PyInt 2" and v = ?v and n = 2] small(1)
  have 3: "mul ?v (PyInt 2) = Inr \<lparr>tv_x = 2, tv_y = 4\<rparr> \<and>
           truediv ?v (PyInt 2) = Inr \<lparr>tv_x = 1 / 2, tv_y = 1\<rparr>"
    by simp
  from mul_truediv_operand [where x = "PyInt 0" and v = ?v and n = 0] small(2)
  have 4: "truediv ?v (PyInt 0) = Inl ZeroDivisionError"
    by simp
  from mul_truediv_operand [where x = "PyInt (2 ^ 1024)" and v = ?v and n = "2 ^ 1024"] big
  have 5: "mul ?v (PyInt (2 ^ 1024)) = Inl OverflowError"
    by simp
  from mul_truediv_operand [where x = "PyFloat (1 / 2)" and v = ?v and r = "1 / 2"]
  have 6: "mul ?v (PyFloat (1 / 2)) = Inr \<lparr>tv_x = 1 / 2, tv_y = 1\<rparr>"
    by simp
  from mul_truediv_operand [where x = "PyFloat 0" and v = ?v and r = 0]
  have 7: "truediv ?v (PyFloat 0) = Inl ZeroDivisionError"
    by simp
  from mul_truediv_operand [of "PyBool False" ?v]
  have 8: "truediv ?v (PyBool False) = Inl ZeroDivisionError"
    by simp
  from 1 2 3 4 5 6 7 8 show ?thesis by simp
qed

lemma make_rotation_components:
  "tv_x (make_rotation v a) = cos a * tv_x v - sin a * tv_y v"
  "tv_y (make_rotation v a) = sin a * tv_x v + cos a * tv_y v"
  by (simp_all add: make_rotation_def TinyVector_init_def)

lemma make_rotation_add: "make_rotation (make_rotation v a) b = make_rotation v (a + b)"
proof -
  have "cos b * (cos a * tv_x v - sin a * tv_y v) - sin b * (sin a * tv_x v + cos a * tv_y v)
        = cos (a + b) * tv_x v - sin (a + b) * tv_y v"
    by (simp add: cos_add sin_add algebra_simps)
  moreover
  have "sin b * (cos a * tv_x v - sin a * tv_y v) + cos b * (sin a * tv_x v + cos a * tv_y v)
        = sin (a + b) * tv_x v + cos (a + b) * tv_y v"
    by (simp add: cos_add sin_add algebra_simps)
  ultimately show ?thesis
    by (simp add: make_rotation_def TinyVector_init_def)
qed

lemma make_rotation_full_turn: "make_rotation v (2 * pi) = v"
  by (simp add: make_rotation_def TinyVector_init_def)

text \<open>
  C9: over real arithmetic, rotating by \<open>a\<close> and then by \<open>b\<close> is rotating by \<open>a + b\<close>,
  and a rotation by \<open>2\<pi>\<close> gives back the vector itself, so that its distance to the
  original is below every positive tolerance.
\<close>

theorem make_rotation_additive:
  "make_rotation (make_rotation v a) b = make_rotation v (a + b) \<and>
   make_rotation v (2 * pi) = v \<and>
   (\<forall>tol > 0. \<bar>tv_x (make_rotation v (2 * pi)) - tv_x v\<bar> < tol \<and>
               \<bar>tv_y (make_rotation v (2 * pi)) - tv_y v\<bar> < tol)"
  by (simp add: make_rotation_add make_rotation_full_turn)

theorem make_rotation_additive_witness:
  "make_rotation (make_rotation \<lparr>tv_x = 1, tv_y = 0\<rparr> pi) pi = \<lparr>tv_x = 1, tv_y = 0\<rparr> \<and>
   (0::real) < 1 / 1000 \<and>
   \<bar>tv_x (make_rotation \<lparr>tv_x = 1, tv_y = 0\<rparr> (2 * pi)) - 1\<bar> < 1 / 1000"
  using make_rotation_additive [of "\<lparr>tv_x = 1, tv_y = 0\<rparr>" pi pi]
  by simp

section \<open>Construction of the catalog\<close>

lemma dict_set_fresh: "\<not> dict_in k d \<Longrightarrow> dict_set d k v = d @ [(k, v)]"
  by (induction d) (auto simp: dict_in_def)

lemma dict_in_append: "dict_in k (d @ e) \<longleftrightarrow> dict_in k d \<or> dict_in k e"
  by (auto simp: dict_in_def)

lemma run_all_Hexagon_init:
  "distinct (map fst cs) \<Longrightarrow> distinct (map (fst \<circ> snd) cs) \<Longrightarrow>
   \<forall>c \<in> set cs. length (fst c) = 2 \<and> \<not> dict_in (fst c) (name_to_hexagon st) \<and>
       \<not> dict_in (fst (snd c)) (position_uv_to_hexagon st) \<Longrightarrow>
   run_all (Hexagon_init cfg) cs st =
     Inr (st\<lparr>objects := objects st @ map (new_hexagon cfg) cs,
            name_to_hexagon := name_to_hexagon st @
               zip (map fst cs) [length (objects st)..<length (objects st) + length cs],
            position_uv_to_hexagon := position_uv_to_hexagon st @
               zip (map (fst \<circ> snd) cs) [length (objects st)..<length (objects st) + length cs]\<rparr>)"
proof (induction cs arbitrary: st)
  case Nil
  then show ?case by simp
next
  case (Cons c cs)
  obtain nm pos rg side where c: "c = (nm, pos, rg, side)" by (cases c) auto
  let ?st1 = "st\<lparr>objects := objects st @ [new_hexagon cfg c],
                  name_to_hexagon := name_to_hexagon st @ [(nm, length (objects st))],
                  position_uv_to_hexagon := position_uv_to_hexagon st @ [(pos, length (objects st))]\<rparr>"
  have step: "Hexagon_init cfg c st = Inr ?st1"
    using Cons.prems(3) by (simp add: Hexagon_init_def c dict_set_fresh Let_def)
  have fresh: "\<forall>c' \<in> set cs. length (fst c') = 2 \<and> \<not> dict_in (fst c') (name_to_hexagon ?st1) \<and>
       \<not> dict_in (fst (snd c')) (position_uv_to_hexagon ?st1)"
    using Cons.prems by (auto simp: dict_in_append dict_in_def c)
  have "run_all (Hexagon_init cfg) (c # cs) st = run_all (Hexagon_init cfg) cs ?st1"
    by (simp add: step and_then_def)
  also have "\<dots> = Inr (?st1\<lparr>objects := objects ?st1 @ map (new_hexagon cfg) cs,
            name_to_hexagon := name_to_hexagon ?st1 @
               zip (map fst cs) [length (objects ?st1)..<length (objects ?st1) + length cs],
            position_uv_to_hexagon := position_uv_to_hexagon ?st1 @
               zip (map (fst \<circ> snd) cs) [length (objects ?st1)..<length (objects ?st1) + length cs]\<rparr>)"
    using Cons.prems(1,2) fresh by (intro Cons.IH) auto
  also have "\<dots> = Inr (st\<lparr>objects := objects st @ map (new_hexagon cfg) (c # cs),
            name_to_hexagon := name_to_hexagon st @
               zip (map fst (c # cs)) [length (objects st)..<length (objects st) + length (c # cs)],
            position_uv_to_hexagon := position_uv_to_hexagon st @
               zip (map (fst \<circ> snd) (c # cs)) [length (objects st)..<length (objects st) + length (c # cs)]\<rparr>)"
    by (simp add: c upt_conv_Cons del: upt_Suc)
  finally show ?case .
qed

lemma lookup_each_map:
  "set ks \<subseteq> fst ` set d \<Longrightarrow> lookup_each d ks = Inr (map (the \<circ> map_of d) ks)"
proof (induction ks)
  case Nil
  then show ?case by simp
next
  case (Cons k ks)
  then obtain v where "map_of d k = Some v"
    by (cases "map_of d k") (auto simp: map_of_eq_None_iff)
  with Cons show ?case by (simp add: dict_get_def and_then_def)
qed

lemma map_of_zip_all:
  "distinct ks \<Longrightarrow> length ks = length vs \<Longrightarrow> map (the \<circ> map_of (zip ks vs)) ks = vs"
  by (rule nth_equalityI) (simp_all add: map_of_zip_nth)

lemma lookup_each_zip:
  "distinct ks \<Longrightarrow> length ks = length vs \<Longrightarrow> lookup_each (zip ks vs) ks = Inr vs"
proof -
  assume a: "distinct ks" "length ks = length vs"
  then have "set ks \<subseteq> fst ` set (zip ks vs)"
    by (simp add: set_map [symmetric] del: set_map)
  with a show ?thesis by (simp add: lookup_each_map map_of_zip_all)
qed


lemma set_indices_append:
  "set_indices (pre @ hs) i [length pre..<length pre + length hs] =
     pre @ map2 with_index [i..<i + length hs] hs"
proof (induction hs arbitrary: pre i)
  case Nil
  then show ?case by simp
next
  case (Cons h hs)
  have "set_indices (pre @ h # hs) i [length pre..<length pre + length (h # hs)] =
        set_indices ((pre @ [with_index i h]) @ hs) (Suc i)
           [length (pre @ [with_index i h])..<length (pre @ [with_index i h]) + length hs]"
    by (simp add: upt_conv_Cons del: upt_Suc)
  also have "\<dots> = (pre @ [with_index i h]) @ map2 with_index [Suc i..<Suc i + length hs] hs"
    by (rule Cons.IH)
  also have "\<dots> = pre @ map2 with_index [i..<i + length (h # hs)] (h # hs)"
    by (simp add: upt_conv_Cons del: upt_Suc)
  finally show ?case .
qed

lemma calls_sorted: "sort (map fst hexagon_calls) = map fst hexagon_calls"
  by (simp add: hexagon_calls_def)

lemma calls_distinct_names: "distinct (map fst hexagon_calls)"
  by (simp add: hexagon_calls_def)

lemma calls_distinct_positions: "distinct (map (fst \<circ> snd) hexagon_calls)"
  by (simp add: hexagon_calls_def)

lemma calls_length: "length hexagon_calls = 49"
  by (simp add: hexagon_calls_def)

lemma calls_name_length: "\<forall>c \<in> set hexagon_calls. length (fst c) = 2"
  by (simp add: hexagon_calls_def)

lemma create_hexagons_fresh:
  assumes "fresh st"
  shows "create_hexagons cfg st =
     Inr (st\<lparr>objects := objects st @ map (new_hexagon cfg) hexagon_calls,
            name_to_hexagon := zip (map fst hexagon_calls) (addresses st),
            position_uv_to_hexagon := zip (map (fst \<circ> snd) hexagon_calls) (addresses st)\<rparr>)"
proof -
  have "\<forall>c \<in> set hexagon_calls. length (fst c) = 2 \<and> \<not> dict_in (fst c) (name_to_hexagon st) \<and>
       \<not> dict_in (fst (snd c)) (position_uv_to_hexagon st)"
    using assms calls_name_length by (simp add: fresh_def dict_in_def)
  from run_all_Hexagon_init [OF calls_distinct_names calls_distinct_positions this, of cfg]
  show ?thesis using assms by (simp add: create_hexagons_def fresh_def addresses_def)
qed

lemma create_all_sorted_hexagons_fresh:
  assumes "fresh st"
  shows "create_all_sorted_hexagons
           (st\<lparr>objects := objects st @ map (new_hexagon cfg) hexagon_calls,
              name_to_hexagon := zip (map fst hexagon_calls) (addresses st),
              position_uv_to_hexagon := zip (map (fst \<circ> snd) hexagon_calls) (addresses st)\<rparr>) =
     Inr (st\<lparr>objects := objects st @ catalog cfg,
            name_to_hexagon := zip (map fst hexagon_calls) (addresses st),
            position_uv_to_hexagon := zip (map (fst \<circ> snd) hexagon_calls) (addresses st),
            lists := (lists st)[all_sorted_hexagons st := addresses st],
            all_attr := Some (all_sorted_hexagons st)\<rparr>)"
proof -
  have len: "length (map fst hexagon_calls) = length (addresses st)"
    by (simp add: addresses_def)
  have keys: "map fst (zip (map fst hexagon_calls) (addresses st)) = map fst hexagon_calls"
    using len by (simp del: length_map)
  have look: "lookup_each (zip (map fst hexagon_calls) (addresses st))
                (sort (map fst (zip (map fst hexagon_calls) (addresses st)))) = Inr (addresses st)"
    unfolding keys calls_sorted using calls_distinct_names len by (rule lookup_each_zip)
  have idx: "set_indices (objects st @ map (new_hexagon cfg) hexagon_calls) 0 (addresses st) =
             objects st @ catalog cfg"
    using set_indices_append [of "objects st" "map (new_hexagon cfg) hexagon_calls" 0]
    by (simp add: addresses_def catalog_def)
  show ?thesis
    using assms
    by (simp add: create_all_sorted_hexagons_def look and_then_def idx fresh_def Let_def)
qed

lemma init_fresh:
  assumes "fresh st"
  shows "init cfg st =
     Inr (create_delta_u_and_v (create_layout
       (st\<lparr>objects := objects st @ catalog cfg,
          name_to_hexagon := zip (map fst hexagon_calls) (addresses st),
          position_uv_to_hexagon := zip (map (fst \<circ> snd) hexagon_calls) (addresses st),
          lists := (lists st)[all_sorted_hexagons st := addresses st],
          all_attr := Some (all_sorted_hexagons st)\<rparr>))\<lparr>init_done := True\<rparr>)"
  using assms
  by (simp add: init_def create_hexagons_fresh create_all_sorted_hexagons_fresh and_then_def fresh_def)

lemma fresh_class_body: "fresh class_body"
  by (simp add: fresh_def class_body_def)

lemma fresh_reset: "fresh (reset st)"
  by (simp add: fresh_def reset_def)


section \<open>Distance on the axial lattice\<close>

lemma lattice_steps_set:
  "set lattice_steps = {(1, 0), (1, -1), (0, -1), (-1, 0), (-1, 1), (0, 1)}"
  by (simp add: lattice_steps_def delta_u_array_def delta_v_array_def)

lemma walk_lower: "walk n p \<Longrightarrow> \<bar>fst p\<bar> + \<bar>snd p\<bar> + \<bar>fst p + snd p\<bar> \<le> 2 * int n"
proof (induction rule: walk.induct)
  case walk_center
  show ?case by simp
next
  case (walk_step n u v du dv)
  from walk_step.hyps(2) have "(du, dv) \<in> {(1, 0), (1, -1), (0, -1), (-1, 0), (-1, 1), (0, 1)}"
    by (simp only: lattice_steps_set)
  with walk_step.IH show ?case by auto
qed

lemma walk_upper_aux: "\<bar>u\<bar> + \<bar>v\<bar> + \<bar>u + v\<bar> = 2 * int n \<Longrightarrow> walk n (u, v)"
proof (induction n arbitrary: u v)
  case 0
  then have "u = 0" "v = 0" by auto
  then show ?case by (simp add: walk_center)
next
  case (Suc n)
  have step: "walk (Suc n) (u, v)"
    if "walk n (u - du, v - dv)" "(du, dv) \<in> set lattice_steps" for du dv
    using walk_step [OF that] by simp
  consider "0 < u \<and> 0 \<le> v" | "u = 0 \<and> 0 < v" | "u < 0 \<and> v \<le> 0" | "u = 0 \<and> v < 0"
    | "0 < u \<and> v < 0" | "u < 0 \<and> 0 < v"
    using Suc.prems by (cases "0 < u"; cases "0 < v"; cases "u = 0"; cases "v = 0") auto
  then show ?case
  proof cases
    case 1
    with Suc.prems have "walk n (u - 1, v - 0)" by (intro Suc.IH) auto
    then show ?thesis by (rule step) (simp add: lattice_steps_set)
  next
    case 2
    with Suc.prems have "walk n (u - 0, v - 1)" by (intro Suc.IH) auto
    then show ?thesis by (rule step) (simp add: lattice_steps_set)
  next
    case 3
    with Suc.prems have "walk n (u - (-1), v - 0)" by (intro Suc.IH) auto
    then show ?thesis by (rule step) (simp add: lattice_steps_set)
  next
    case 4
    with Suc.prems have "walk n (u - 0, v - (-1))" by (intro Suc.IH) auto
    then show ?thesis by (rule step) (simp add: lattice_steps_set)
  next
    case 5
    with Suc.prems have "walk n (u - 1, v - (-1))" by (intro Suc.IH) auto
    then show ?thesis by (rule step) (simp add: lattice_steps_set)
  next
    case 6
    with Suc.prems have "walk n (u - (-1), v - 1)" by (intro Suc.IH) auto
    then show ?thesis by (rule step) (simp add: lattice_steps_set)
  qed
qed

lemma is_distance_formula:
  "2 * d = \<bar>u\<bar> + \<bar>v\<bar> + \<bar>u + v\<bar> \<Longrightarrow> is_distance (u, v) d"
proof -
  assume d: "2 * d = \<bar>u\<bar> + \<bar>v\<bar> + \<bar>u + v\<bar>"
  then have nonneg: "0 \<le> d" by linarith
  then have "\<bar>u\<bar> + \<bar>v\<bar> + \<bar>u + v\<bar> = 2 * int (nat d)" using d by simp
  then have "walk (nat d) (u, v)" by (rule walk_upper_aux)
  moreover have "nat d \<le> n" if "walk n (u, v)" for n
    using walk_lower [OF that] d by simp
  ultimately show ?thesis using nonneg by (simp add: is_distance_def)
qed

lemma is_distance_unique: "is_distance p d \<Longrightarrow> is_distance p d' \<Longrightarrow> d = d'"
  unfolding is_distance_def
  by (metis nat_eq_iff order_antisym)


section \<open>Observations on the initialised class\<close>

lemma nth_append_upt: "map ((!) (xs @ ys)) [length xs..<length xs + length ys] = ys"
  by (rule nth_equalityI) simp_all

lemma catalog_length: "length (catalog cfg) = 49"
  by (simp add: catalog_def calls_length)

lemma addresses_length: "length (addresses st) = 49"
  by (simp add: addresses_def calls_length)

lemma catalog_nth:
  "i < 49 \<Longrightarrow> catalog cfg ! i = with_index i (new_hexagon cfg (hexagon_calls ! i))"
  by (simp add: catalog_def calls_length)

lemma new_hexagon_fields:
  "name (with_index i (new_hexagon cfg c)) = fst c"
  "position_uv (with_index i (new_hexagon cfg c)) = fst (snd c)"
  "ring (with_index i (new_hexagon cfg c)) = fst (snd (snd c))"
  "label_side (with_index i (new_hexagon cfg c)) = snd (snd (snd c))"
  "index (with_index i (new_hexagon cfg c)) = Some i"
  by (simp_all add: with_index_def new_hexagon_def split: prod.splits)

lemma catalog_fields:
  "map (\<lambda>h. (name h, position_uv h, ring h, label_side h)) (catalog cfg) = hexagon_calls"
  by (rule nth_equalityI)
     (simp_all add: catalog_length calls_length catalog_nth new_hexagon_fields)

lemma catalog_names: "map name (catalog cfg) = map fst hexagon_calls"
  using arg_cong [OF catalog_fields, of "map fst"] by (simp add: comp_def)

lemma catalog_positions: "map position_uv (catalog cfg) = map (fst \<circ> snd) hexagon_calls"
  using arg_cong [OF catalog_fields, of "map (fst \<circ> snd)"] by (simp add: comp_def)

lemma catalog_rings: "map ring (catalog cfg) = map (fst \<circ> snd \<circ> snd) hexagon_calls"
  using arg_cong [OF catalog_fields, of "map (fst \<circ> snd \<circ> snd)"] by (simp add: comp_def)

lemma catalog_indices: "map index (catalog cfg) = map Some [0..<49]"
  by (rule nth_equalityI) (simp_all add: catalog_length catalog_nth new_hexagon_fields)

text \<open>The state that init builds from a fresh state, field by field.\<close>

lemma init_fresh_fields:
  assumes "fresh st0"
  obtains st where
    "init cfg st0 = Inr st"
    "objects st = objects st0 @ catalog cfg"
    "lists st = (lists st0)[all_sorted_hexagons st0 := addresses st0]"
    "all_sorted_hexagons st = all_sorted_hexagons st0"
    "name_to_hexagon st = zip (map fst hexagon_calls) (addresses st0)"
    "position_uv_to_hexagon st = zip (map (fst \<circ> snd) hexagon_calls) (addresses st0)"
    "all_attr st = Some (all_sorted_hexagons st0)"
    "init_done st"
    "delta_u st = Some delta_u_array" "delta_v st = Some delta_v_array"
  using init_fresh [OF assms, of cfg]
  by (simp add: create_delta_u_and_v_def create_layout_def)

lemma init_fresh_cells:
  assumes "fresh st0" "init cfg st0 = Inr st"
  shows "list_content st (get_all st) = addresses st0"
    and "cells_of st (get_all st) = catalog cfg"
    and "i < 49 \<Longrightarrow> cell st (addresses st0 ! i) = catalog cfg ! i"
proof -
  from assms(1) obtain st' where st': "init cfg st0 = Inr st'"
    "objects st' = objects st0 @ catalog cfg"
    "lists st' = (lists st0)[all_sorted_hexagons st0 := addresses st0]"
    "all_sorted_hexagons st' = all_sorted_hexagons st0"
    by (rule init_fresh_fields)
  with assms(2) have eq: "st' = st" by simp
  show c: "list_content st (get_all st) = addresses st0"
    using st' assms(1) unfolding eq by (simp add: list_content_def get_all_def fresh_def)
  show "cells_of st (get_all st) = catalog cfg"
    unfolding cells_of_def c
    using st'(2) nth_append_upt [of "objects st0" "catalog cfg"]
    unfolding eq by (simp add: cell_def [abs_def] addresses_def catalog_length calls_length)
  show "i < 49 \<Longrightarrow> cell st (addresses st0 ! i) = catalog cfg ! i"
    using st'(2) unfolding eq by (simp add: cell_def addresses_def calls_length)
qed

lemma module_load_fields:
  obtains st where "module_load = Inr st" "projr module_load = st" "\<not> isl module_load"
    "list_content st (get_all st) = addresses class_body"
    "cells_of st (get_all st) = catalog make_board_config"
    "name_to_hexagon st = zip (map fst hexagon_calls) (addresses class_body)"
    "position_uv_to_hexagon st = zip (map (fst \<circ> snd) hexagon_calls) (addresses class_body)"
proof -
  obtain st where st: "init make_board_config class_body = Inr st"
    "name_to_hexagon st = zip (map fst hexagon_calls) (addresses class_body)"
    "position_uv_to_hexagon st = zip (map (fst \<circ> snd) hexagon_calls) (addresses class_body)"
    using init_fresh_fields [OF fresh_class_body, of make_board_config] by metis
  show ?thesis
    using st init_fresh_cells(1,2) [OF fresh_class_body st(1)]
    by (intro that [of st]) (simp_all add: module_load_def)
qed

lemma zip_keys:
  "length ks = length vs \<Longrightarrow> map fst (zip ks vs) = ks"
  by simp

text \<open>
  C1, amended: \<^verbatim>\<open>init\<close> on a fresh class succeeds and leaves 49 cells: the list behind
  \<^verbatim>\<open>get_all\<close> holds 49 distinct cells, the table from names has 49 distinct names and the
  table from positions has 49 distinct axial positions.
\<close>

theorem init_catalog_size:
  "fresh st0 \<Longrightarrow>
   \<exists>st. init cfg st0 = Inr st \<and>
        length (list_content st (get_all st)) = 49 \<and>
        distinct (list_content st (get_all st)) \<and>
        length (name_to_hexagon st) = 49 \<and>
        distinct (map fst (name_to_hexagon st)) \<and>
        length (position_uv_to_hexagon st) = 49 \<and>
        distinct (map fst (position_uv_to_hexagon st))"
proof -
  assume f: "fresh st0"
  then obtain st where st: "init cfg st0 = Inr st"
    "name_to_hexagon st = zip (map fst hexagon_calls) (addresses st0)"
    "position_uv_to_hexagon st = zip (map (fst \<circ> snd) hexagon_calls) (addresses st0)"
    using init_fresh_fields [of st0 cfg] by metis
  have c: "list_content st (get_all st) = addresses st0"
    using f st(1) by (rule init_fresh_cells)
  have "distinct (addresses st0)" by (simp add: addresses_def)
  then show ?thesis
    using st c calls_distinct_names calls_distinct_positions
    by (simp add: addresses_length calls_length zip_keys)
qed

theorem init_catalog_size_witness:
  "fresh class_body \<and>
   (\<exists>st. module_load = Inr st \<and>
        length (list_content st (get_all st)) = 49 \<and>
        length (name_to_hexagon st) = 49 \<and>
        length (position_uv_to_hexagon st) = 49)"
  using init_catalog_size [OF fresh_class_body, of make_board_config] fresh_class_body
  by (auto simp: module_load_def)

text \<open>
  C1, as stated, fails: once the module is loaded the three containers hold 49 cells, not
  48 (the rows have 6, 7, 8, 7, 8, 7 and 6 cells).
\<close>

theorem catalog_size_not_48:
  "\<not> isl module_load \<and>
   length (list_content (projr module_load) (get_all (projr module_load))) = 49 \<and>
   length (list_content (projr module_load) (get_all (projr module_load))) \<noteq> 48 \<and>
   length (name_to_hexagon (projr module_load)) \<noteq> 48 \<and>
   length (position_uv_to_hexagon (projr module_load)) \<noteq> 48"
proof -
  obtain st where "projr module_load = st" "\<not> isl module_load"
    "list_content st (get_all st) = addresses class_body"
    "name_to_hexagon st = zip (map fst hexagon_calls) (addresses class_body)"
    "position_uv_to_hexagon st = zip (map (fst \<circ> snd) hexagon_calls) (addresses class_body)"
    by (rule module_load_fields)
  then show ?thesis by (simp add: addresses_length calls_length)
qed

lemma calls_ring_formula:
  "\<forall>c \<in> set hexagon_calls.
     2 * fst (snd (snd c)) =
       \<bar>fst (fst (snd c))\<bar> + \<bar>snd (fst (snd c))\<bar> + \<bar>fst (fst (snd c)) + snd (fst (snd c))\<bar>"
  by (simp add: hexagon_calls_def)

lemma catalog_ring_formula:
  assumes "h \<in> set (catalog cfg)"
  shows "2 * ring h =
           \<bar>fst (position_uv h)\<bar> + \<bar>snd (position_uv h)\<bar> + \<bar>fst (position_uv h) + snd (position_uv h)\<bar>"
proof -
  from assms have "(name h, position_uv h, ring h, label_side h) \<in> set hexagon_calls"
    using catalog_fields [of cfg, symmetric] by (metis (no_types, lifting) imageI set_map)
  with calls_ring_formula show ?thesis by fastforce
qed

lemma lookup_nth:
  assumes "fresh st0" "init cfg st0 = Inr st" "i < 49"
  shows "get st (fst (hexagon_calls ! i)) = Inr (addresses st0 ! i)"
    and "get_by_position st (fst (snd (hexagon_calls ! i))) = Inr (addresses st0 ! i)"
    and "cell st (addresses st0 ! i) = with_index i (new_hexagon cfg (hexagon_calls ! i))"
proof -
  from assms(1) obtain st' where st': "init cfg st0 = Inr st'"
    "name_to_hexagon st' = zip (map fst hexagon_calls) (addresses st0)"
    "position_uv_to_hexagon st' = zip (map (fst \<circ> snd) hexagon_calls) (addresses st0)"
    using init_fresh_fields [of st0 cfg] by metis
  with assms(2) have eq: "st' = st" by simp
  have "map_of (zip (map fst hexagon_calls) (addresses st0)) (map fst hexagon_calls ! i) =
        Some (addresses st0 ! i)"
    using assms(3) calls_distinct_names
    by (intro map_of_zip_nth) (simp_all add: addresses_length calls_length)
  then show "get st (fst (hexagon_calls ! i)) = Inr (addresses st0 ! i)"
    using st'(2) assms(3) unfolding eq by (simp add: get_def dict_get_def calls_length)
  have "map_of (zip (map (fst \<circ> snd) hexagon_calls) (addresses st0))
          (map (fst \<circ> snd) hexagon_calls ! i) = Some (addresses st0 ! i)"
    using assms(3) calls_distinct_positions
    by (intro map_of_zip_nth) (simp_all add: addresses_length calls_length)
  then show "get_by_position st (fst (snd (hexagon_calls ! i))) = Inr (addresses st0 ! i)"
    using st'(3) assms(3) unfolding eq
    by (simp add: get_by_position_def dict_get_def calls_length)
  show "cell st (addresses st0 ! i) = with_index i (new_hexagon cfg (hexagon_calls ! i))"
    using init_fresh_cells(3) [OF assms] assms(3) by (simp add: catalog_nth)
qed

text \<open>
  C3: after \<^verbatim>\<open>init\<close>, every cell at \<open>(u, v)\<close> has ring \<open>(\<bar>u\<bar> + \<bar>v\<bar> + \<bar>u + v\<bar>) / 2\<close>,
  which is its graph distance from the center on the lattice of the six steps of
  \<^verbatim>\<open>__delta_u\<close> and \<^verbatim>\<open>__delta_v\<close>; the cell \<^verbatim>\<open>d4\<close> is at (0, 0) with ring 0, and \<^verbatim>\<open>a1\<close> and
  \<^verbatim>\<open>g6\<close> have ring 4.
\<close>

theorem ring_is_distance:
  "fresh st0 \<Longrightarrow>
   \<exists>st. init cfg st0 = Inr st \<and>
     delta_u st = Some delta_u_array \<and> delta_v st = Some delta_v_array \<and>
     (\<forall>h \<in> set (cells_of st (get_all st)).
        2 * ring h = \<bar>fst (position_uv h)\<bar> + \<bar>snd (position_uv h)\<bar> +
                     \<bar>fst (position_uv h) + snd (position_uv h)\<bar> \<and>
        is_distance (position_uv h) (ring h)) \<and>
     (\<exists>d4. get st ''d4'' = Inr d4 \<and> position_uv (cell st d4) = (0, 0) \<and> ring (cell st d4) = 0) \<and>
     (\<exists>a1. get st ''a1'' = Inr a1 \<and> ring (cell st a1) = 4) \<and>
     (\<exists>g6. get st ''g6'' = Inr g6 \<and> ring (cell st g6) = 4)"
proof -
  assume f: "fresh st0"
  then obtain st where st: "init cfg st0 = Inr st"
    "delta_u st = Some delta_u_array" "delta_v st = Some delta_v_array"
    using init_fresh_fields [of st0 cfg] by metis
  have cells: "cells_of st (get_all st) = catalog cfg"
    using f st(1) by (rule init_fresh_cells)
  have dist: "is_distance (position_uv h) (ring h)" if "h \<in> set (catalog cfg)" for h
    using catalog_ring_formula [OF that]
          is_distance_formula [of "ring h" "fst (position_uv h)" "snd (position_uv h)"]
    by simp
  have d4: "hexagon_calls ! 24 = (''d4'', (0, 0), 0, LabelInt 0)"
    and a1: "hexagon_calls ! 0 = (''a1'', (-1, -3), 4, LabelSide WEST)"
    and g6: "hexagon_calls ! 48 = (''g6'', (1, 3), 4, LabelSide EAST)"
    by (simp_all add: hexagon_calls_def)
  have "get st ''d4'' = Inr (addresses st0 ! 24) \<and>
        position_uv (cell st (addresses st0 ! 24)) = (0, 0) \<and> ring (cell st (addresses st0 ! 24)) = 0"
    using lookup_nth [OF f st(1), of 24] by (simp add: d4 new_hexagon_fields)
  moreover have "get st ''a1'' = Inr (addresses st0 ! 0) \<and> ring (cell st (addresses st0 ! 0)) = 4"
    using lookup_nth [OF f st(1), of 0] by (simp add: a1 new_hexagon_fields)
  moreover have "get st ''g6'' = Inr (addresses st0 ! 48) \<and> ring (cell st (addresses st0 ! 48)) = 4"
    using lookup_nth [OF f st(1), of 48] by (simp add: g6 new_hexagon_fields)
  ultimately show ?thesis
    using st cells catalog_ring_formula dist by auto
qed

theorem ring_is_distance_witness:
  "fresh class_body \<and>
   (\<exists>st. module_load = Inr st \<and>
     (\<forall>h \<in> set (cells_of st (get_all st)). is_distance (position_uv h) (ring h)) \<and>
     (\<exists>d4. get st ''d4'' = Inr d4 \<and> position_uv (cell st d4) = (0, 0) \<and> ring (cell st d4) = 0))"
  using ring_is_distance [OF fresh_class_body, of make_board_config] fresh_class_body
  unfolding module_load_def by blast

section \<open>Ring values, lookups and the life cycle\<close>

lemma calls_rings:
  "set (map (fst \<circ> snd \<circ> snd) hexagon_calls) = {0, 1, 2, 3, 4}"
  by (simp add: hexagon_calls_def) blast

lemma calls_ring_counts:
  "map (\<lambda>r. length (filter (\<lambda>c. fst (snd (snd c)) = r) hexagon_calls)) [0, 1, 2, 3, 4] =
     [1, 6, 12, 18, 12]"
  by (simp add: hexagon_calls_def)

lemma calls_reflection:
  "\<forall>c \<in> set hexagon_calls.
     ((- fst (fst (snd c)), - snd (fst (snd c))), fst (snd (snd c))) \<in>
        set (map (\<lambda>c. (fst (snd c), fst (snd (snd c)))) hexagon_calls)"
  by (simp add: hexagon_calls_def)

lemma catalog_ring_set: "ring ` set (catalog cfg) = {0, 1, 2, 3, 4}"
  using calls_rings catalog_rings [of cfg] by (metis set_map)

lemma catalog_ring_counts:
  "map (\<lambda>r. length (filter (\<lambda>h. ring h = r) (catalog cfg))) [0, 1, 2, 3, 4] = [1, 6, 12, 18, 12]"
proof -
  have "length (filter (\<lambda>h. ring h = r) (catalog cfg)) =
        length (filter (\<lambda>c. fst (snd (snd c)) = r) hexagon_calls)" for r
  proof -
    have "length (filter (\<lambda>h. ring h = r) (catalog cfg)) =
          length (filter (\<lambda>x. x = r) (map ring (catalog cfg)))"
      by (simp add: filter_map comp_def)
    also have "\<dots> = length (filter (\<lambda>x. x = r) (map (fst \<circ> snd \<circ> snd) hexagon_calls))"
      by (simp only: catalog_rings)
    also have "\<dots> = length (filter (\<lambda>c. fst (snd (snd c)) = r) hexagon_calls)"
      by (simp add: filter_map comp_def)
    finally show ?thesis .
  qed
  then show ?thesis using calls_ring_counts by simp
qed

lemma catalog_reflection:
  assumes "h \<in> set (catalog cfg)"
  shows "\<exists>h' \<in> set (catalog cfg).
           position_uv h' = (- fst (position_uv h), - snd (position_uv h)) \<and> ring h' = ring h"
proof -
  let ?f = "\<lambda>h. (name h, position_uv h, ring h, label_side h)"
  from assms have "?f h \<in> set hexagon_calls"
    using catalog_fields [of cfg, symmetric] by (metis (no_types, lifting) imageI set_map)
  with calls_reflection
  have "((- fst (position_uv h), - snd (position_uv h)), ring h) \<in>
          set (map (\<lambda>c. (fst (snd c), fst (snd (snd c)))) hexagon_calls)"
    by fastforce
  then obtain c where c: "c \<in> set hexagon_calls"
    "fst (snd c) = (- fst (position_uv h), - snd (position_uv h))" "fst (snd (snd c)) = ring h"
    by auto
  from c(1) have "c \<in> set (map ?f (catalog cfg))" by (simp only: catalog_fields)
  then obtain h' where "h' \<in> set (catalog cfg)" "c = ?f h'" by auto
  with c(2,3) show ?thesis by auto
qed

text \<open>
  C4, amended: after \<^verbatim>\<open>init\<close> the ring values of the cells are exactly the 5 values 0 to
  4, none is negative, the rings 0 to 4 have 1, 6, 12, 18 and 12 cells, and the board is
  symmetric around the center cell: the opposite \<open>(-u, -v)\<close> of every cell \<open>(u, v)\<close> is a
  cell with the same ring.
\<close>

theorem ring_values:
  "fresh st0 \<Longrightarrow>
   \<exists>st. init cfg st0 = Inr st \<and>
     ring ` set (cells_of st (get_all st)) = {0, 1, 2, 3, 4} \<and>
     card (ring ` set (cells_of st (get_all st))) = 5 \<and>
     (\<forall>h \<in> set (cells_of st (get_all st)). 0 \<le> ring h) \<and>
     map (\<lambda>r. length (filter (\<lambda>h. ring h = r) (cells_of st (get_all st)))) [0, 1, 2, 3, 4] =
       [1, 6, 12, 18, 12] \<and>
     (\<forall>h \<in> set (cells_of st (get_all st)).
        \<exists>h' \<in> set (cells_of st (get_all st)).
          position_uv h' = (- fst (position_uv h), - snd (position_uv h)) \<and> ring h' = ring h)"
proof -
  assume f: "fresh st0"
  then obtain st where st: "init cfg st0 = Inr st"
    using init_fresh_fields [of st0 cfg] by metis
  have cells: "cells_of st (get_all st) = catalog cfg"
    using f st by (rule init_fresh_cells)
  have "card (ring ` set (catalog cfg)) = 5"
    by (simp add: catalog_ring_set)
  moreover have "\<forall>h \<in> set (catalog cfg). 0 \<le> ring h"
  proof
    fix h assume "h \<in> set (catalog cfg)"
    then have "ring h \<in> {0, 1, 2, 3, 4}"
      using catalog_ring_set [of cfg] by blast
    then show "0 \<le> ring h" by auto
  qed
  ultimately show ?thesis
    using st catalog_ring_set [of cfg] catalog_ring_counts [of cfg] catalog_reflection [of _ cfg]
    by (intro exI [of _ st]) (simp add: cells)
qed

theorem ring_values_witness:
  "fresh class_body \<and>
   (\<exists>st. module_load = Inr st \<and>
     ring ` set (cells_of st (get_all st)) = {0, 1, 2, 3, 4} \<and>
     (\<forall>h \<in> set (cells_of st (get_all st)). 0 \<le> ring h))"
  using ring_values [OF fresh_class_body, of make_board_config] fresh_class_body
  unfolding module_load_def by blast

text \<open>
  C4, as stated, fails: once the module is loaded the cells have 5 distinct ring values,
  not 7.
\<close>

theorem ring_values_not_7:
  "\<not> isl module_load \<and>
   card (ring ` set (cells_of (projr module_load) (get_all (projr module_load)))) = 5 \<and>
   card (ring ` set (cells_of (projr module_load) (get_all (projr module_load)))) \<noteq> 7"
proof -
  obtain st where "projr module_load = st" "\<not> isl module_load"
    "cells_of st (get_all st) = catalog make_board_config"
    by (rule module_load_fields)
  then show ?thesis by (simp add: catalog_ring_set)
qed

lemma init_fresh_views:
  assumes "fresh st0" "init cfg st0 = Inr st"
  shows "by_name st = zip (map fst hexagon_calls) (catalog cfg)"
    and "by_position st = zip (map (fst \<circ> snd) hexagon_calls) (catalog cfg)"
    and "map_option (cells_of st) (all_attr st) = Some (catalog cfg)"
    and "init_done st"
proof -
  from assms(1) obtain st' where st': "init cfg st0 = Inr st'"
    "all_sorted_hexagons st' = all_sorted_hexagons st0"
    "name_to_hexagon st' = zip (map fst hexagon_calls) (addresses st0)"
    "position_uv_to_hexagon st' = zip (map (fst \<circ> snd) hexagon_calls) (addresses st0)"
    "all_attr st' = Some (all_sorted_hexagons st0)"
    "init_done st'"
    using init_fresh_fields [of st0 cfg] by metis
  with assms(2) have eq: "st' = st" by simp
  have cells: "map (cell st) (addresses st0) = catalog cfg"
    using init_fresh_cells(1,2) [OF assms] by (simp add: cells_of_def)
  show "by_name st = zip (map fst hexagon_calls) (catalog cfg)"
    using st'(3) cells unfolding eq by_name_def by (simp add: zip_map2 [symmetric])
  show "by_position st = zip (map (fst \<circ> snd) hexagon_calls) (catalog cfg)"
    using st'(4) cells unfolding eq by_position_def by (simp add: zip_map2 [symmetric])
  show "map_option (cells_of st) (all_attr st) = Some (catalog cfg)"
    using st'(2,5) init_fresh_cells(2) [OF assms] unfolding eq by (simp add: get_all_def)
  show "init_done st" using st'(6) unfolding eq .
qed

text \<open>
  C6: when \<^verbatim>\<open>init\<close> has built the class, \<^verbatim>\<open>reset\<close> followed by \<^verbatim>\<open>init\<close> succeeds and gives
  the same cells again: the same sorted list of cells (names, positions, rings, label
  sides, indices and centers), the same cell under every name and under every position,
  and the same cells behind \<^verbatim>\<open>all\<close>; a further \<^verbatim>\<open>init\<close> without \<^verbatim>\<open>reset\<close> changes nothing.
\<close>

theorem reset_init_same_catalog:
  "fresh st0 \<Longrightarrow> init cfg st0 = Inr st1 \<Longrightarrow>
   \<exists>st2. init cfg (reset st1) = Inr st2 \<and>
     cells_of st2 (get_all st2) = cells_of st1 (get_all st1) \<and>
     by_name st2 = by_name st1 \<and>
     by_position st2 = by_position st1 \<and>
     map_option (cells_of st2) (all_attr st2) = map_option (cells_of st1) (all_attr st1) \<and>
     init cfg st1 = Inr st1 \<and>
     init cfg st2 = Inr st2"
proof -
  assume f: "fresh st0" and i: "init cfg st0 = Inr st1"
  obtain st2 where st2: "init cfg (reset st1) = Inr st2"
    using init_fresh_fields [OF fresh_reset, of cfg st1] by metis
  note v1 = init_fresh_views [OF f i] init_fresh_cells(2) [OF f i]
  note v2 = init_fresh_views [OF fresh_reset st2] init_fresh_cells(2) [OF fresh_reset st2]
  have "init cfg st1 = Inr st1" "init cfg st2 = Inr st2"
    using v1(4) v2(4) by (simp_all add: init_def)
  moreover have "cells_of st2 (get_all st2) = cells_of st1 (get_all st1)"
    by (simp only: v1 v2)
  moreover have "by_name st2 = by_name st1" "by_position st2 = by_position st1"
    by (simp_all only: v1 v2)
  moreover have "map_option (cells_of st2) (all_attr st2) = map_option (cells_of st1) (all_attr st1)"
    by (simp only: v1 v2)
  ultimately show ?thesis
    using st2 by blast
qed

theorem reset_init_same_catalog_witness:
  "fresh class_body \<and>
   (\<exists>st1. module_load = Inr st1 \<and>
     (\<exists>st2. init make_board_config (reset st1) = Inr st2 \<and>
       cells_of st2 (get_all st2) = cells_of st1 (get_all st1) \<and>
       init make_board_config st1 = Inr st1))"
proof -
  obtain st1 where st1: "module_load = Inr st1"
    by (rule module_load_fields)
  then have "init make_board_config class_body = Inr st1"
    by (simp add: module_load_def)
  from reset_init_same_catalog [OF fresh_class_body this] st1 fresh_class_body
  show ?thesis by blast
qed

text \<open>
  C7: after \<^verbatim>\<open>init\<close>, every position of the position table leads to a cell that has this
  position and that \<^verbatim>\<open>get\<close> returns for its name; likewise from every name; and for every
  cell of the sorted list both lookups return this very cell (its address).
\<close>

theorem lookups_agree:
  "fresh st0 \<Longrightarrow>
   \<exists>st. init cfg st0 = Inr st \<and>
     (\<forall>(pos, a) \<in> set (position_uv_to_hexagon st).
        get_by_position st pos = Inr a \<and> position_uv (cell st a) = pos \<and>
        get st (name (cell st a)) = Inr a) \<and>
     (\<forall>(nm, a) \<in> set (name_to_hexagon st).
        get st nm = Inr a \<and> name (cell st a) = nm \<and>
        get_by_position st (position_uv (cell st a)) = Inr a) \<and>
     (\<forall>a \<in> set (list_content st (get_all st)).
        get st (name (cell st a)) = Inr a \<and>
        get_by_position st (position_uv (cell st a)) = Inr a)"
proof -
  assume f: "fresh st0"
  then obtain st where st: "init cfg st0 = Inr st"
    "name_to_hexagon st = zip (map fst hexagon_calls) (addresses st0)"
    "position_uv_to_hexagon st = zip (map (fst \<circ> snd) hexagon_calls) (addresses st0)"
    using init_fresh_fields [of st0 cfg] by metis
  have c: "list_content st (get_all st) = addresses st0"
    using f st(1) by (rule init_fresh_cells)
  have at: "get st (fst (hexagon_calls ! i)) = Inr (addresses st0 ! i) \<and>
            get_by_position st (fst (snd (hexagon_calls ! i))) = Inr (addresses st0 ! i) \<and>
            name (cell st (addresses st0 ! i)) = fst (hexagon_calls ! i) \<and>
            position_uv (cell st (addresses st0 ! i)) = fst (snd (hexagon_calls ! i))"
    if "i < 49" for i
    using lookup_nth [OF f st(1) that] by (simp add: new_hexagon_fields)
  have p: "get_by_position st pos = Inr a \<and> position_uv (cell st a) = pos \<and>
           get st (name (cell st a)) = Inr a"
    if "(pos, a) \<in> set (position_uv_to_hexagon st)" for pos a
  proof -
    from that obtain i where "i < 49" "pos = fst (snd (hexagon_calls ! i))" "a = addresses st0 ! i"
      unfolding st(3) by (auto simp: in_set_zip calls_length addresses_length)
    with at [of i] show ?thesis by simp
  qed
  have n: "get st nm = Inr a \<and> name (cell st a) = nm \<and>
           get_by_position st (position_uv (cell st a)) = Inr a"
    if "(nm, a) \<in> set (name_to_hexagon st)" for nm a
  proof -
    from that obtain i where "i < 49" "nm = fst (hexagon_calls ! i)" "a = addresses st0 ! i"
      unfolding st(2) by (auto simp: in_set_zip calls_length addresses_length)
    with at [of i] show ?thesis by simp
  qed
  have l: "get st (name (cell st a)) = Inr a \<and>
           get_by_position st (position_uv (cell st a)) = Inr a"
    if "a \<in> set (list_content st (get_all st))" for a
  proof -
    from that obtain i where "i < 49" "a = addresses st0 ! i"
      unfolding c by (auto simp: in_set_conv_nth addresses_length)
    with at [of i] show ?thesis by simp
  qed
  from st(1) p n l show ?thesis by blast
qed

theorem lookups_agree_witness:
  "fresh class_body \<and>
   (\<exists>st. module_load = Inr st \<and>
     list_content st (get_all st) \<noteq> [] \<and>
     (\<forall>a \<in> set (list_content st (get_all st)).
        get st (name (cell st a)) = Inr a \<and>
        get_by_position st (position_uv (cell st a)) = Inr a))"
proof -
  obtain st where st: "init make_board_config class_body = Inr st"
     and all: "\<forall>a \<in> set (list_content st (get_all st)).
        get st (name (cell st a)) = Inr a \<and>
        get_by_position st (position_uv (cell st a)) = Inr a"
    using lookups_agree [OF fresh_class_body, of make_board_config] by blast
  have "list_content st (get_all st) = addresses class_body"
    using fresh_class_body st by (rule init_fresh_cells)
  then have "list_content st (get_all st) \<noteq> []"
    using addresses_length [of class_body] by auto
  with st all fresh_class_body show ?thesis
    unfolding module_load_def by blast
qed

text \<open>
  C10: \<^verbatim>\<open>reset\<close> empties both tables, the layout and the list behind \<^verbatim>\<open>get_all\<close> and lowers
  the flag, but leaves \<^verbatim>\<open>all\<close>, the objects and every earlier list object as they are.
  After an \<^verbatim>\<open>init\<close>, \<^verbatim>\<open>all\<close> therefore still refers to the list of the 49 cells, while
  \<^verbatim>\<open>get_all\<close> returns another, empty list.
\<close>

theorem reset_keeps_all:
  "name_to_hexagon (reset st) = [] \<and>
   position_uv_to_hexagon (reset st) = [] \<and>
   layout (reset st) = [] \<and>
   \<not> init_done (reset st) \<and>
   list_content (reset st) (get_all (reset st)) = [] \<and>
   all_attr (reset st) = all_attr st \<and>
   objects (reset st) = objects st \<and>
   (\<forall>l < length (lists st). list_content (reset st) l = list_content st l) \<and>
   (\<forall>st0 cfg. fresh st0 \<and> init cfg st0 = Inr st \<longrightarrow>
      all_attr (reset st) = Some (get_all st) \<and>
      cells_of (reset st) (get_all st) = cells_of st (get_all st) \<and>
      length (cells_of (reset st) (get_all st)) = 49 \<and>
      get_all (reset st) \<noteq> get_all st \<and>
      cells_of (reset st) (get_all (reset st)) = [] \<and>
      map_option (cells_of (reset st)) (all_attr (reset st)) \<noteq>
        Some (cells_of (reset st) (get_all (reset st))))"
proof -
  have frame: "list_content (reset st) l = list_content st l" if "l < length (lists st)" for l
    using that by (simp add: list_content_def reset_def nth_append)
  have empty: "list_content (reset st) (get_all (reset st)) = []"
    by (simp add: list_content_def reset_def get_all_def)
  have after: "all_attr (reset st) = Some (get_all st) \<and>
      cells_of (reset st) (get_all st) = cells_of st (get_all st) \<and>
      length (cells_of (reset st) (get_all st)) = 49 \<and>
      get_all (reset st) \<noteq> get_all st \<and>
      cells_of (reset st) (get_all (reset st)) = [] \<and>
      map_option (cells_of (reset st)) (all_attr (reset st)) \<noteq>
        Some (cells_of (reset st) (get_all (reset st)))"
    if f: "fresh st0" and i: "init cfg st0 = Inr st" for st0 cfg
  proof -
    from f obtain st' where st': "init cfg st0 = Inr st'"
      "lists st' = (lists st0)[all_sorted_hexagons st0 := addresses st0]"
      "all_sorted_hexagons st' = all_sorted_hexagons st0"
      "all_attr st' = Some (all_sorted_hexagons st0)"
      using init_fresh_fields [of st0 cfg] by metis
    with i have eq: "st' = st" by simp
    have lt: "get_all st < length (lists st)"
      using st'(2,3) f unfolding eq by (simp add: get_all_def fresh_def)
    have a: "all_attr (reset st) = Some (get_all st)"
      using st'(3,4) unfolding eq by (simp add: reset_def get_all_def)
    have same: "cells_of (reset st) (get_all st) = cells_of st (get_all st)"
      using frame [OF lt] by (simp add: cells_of_def cell_def [abs_def] reset_def)
    have len: "length (cells_of st (get_all st)) = 49"
      using init_fresh_cells(2) [OF f i] by (simp add: catalog_length)
    have ne: "get_all (reset st) \<noteq> get_all st"
      using lt by (simp add: reset_def get_all_def)
    have e: "cells_of (reset st) (get_all (reset st)) = []"
      using empty by (simp add: cells_of_def)
    show ?thesis
      using a same len ne e by auto
  qed
  show ?thesis
    using frame empty after by (simp add: reset_def) blast
qed

theorem reset_keeps_all_witness:
  "fresh class_body \<and>
   (\<exists>st. module_load = Inr st \<and>
      get_all st < length (lists st) \<and>
      list_content (reset st) (get_all st) = list_content st (get_all st) \<and>
      all_attr (reset st) = Some (get_all st) \<and>
      length (cells_of (reset st) (get_all st)) = 49 \<and>
      cells_of (reset st) (get_all (reset st)) = [])"
proof -
  obtain st where i: "init make_board_config class_body = Inr st"
    and l: "lists st = (lists class_body)[all_sorted_hexagons class_body := addresses class_body]"
           "all_sorted_hexagons st = all_sorted_hexagons class_body"
    using init_fresh_fields [OF fresh_class_body, of make_board_config] by metis
  have lt: "get_all st < length (lists st)"
    using l by (simp add: get_all_def class_body_def)
  from reset_keeps_all [of st] fresh_class_body i lt
  show ?thesis unfolding module_load_def by blast
qed

section \<open>The labels of draw_board\<close>












































section \<open>The text elements of a drawing\<close>






lemma length_concat_choice:
  "length (concat (map (\<lambda>h. if P h then [a h] else if Q h then [b h] else []) xs)) =
   length (filter (\<lambda>h. P h \<or> Q h) xs)"
  by (induction xs) auto





section \<open>The files that draw_board saves\<close>

































end
